theory Spec2Isabelle
  imports Main
begin

section \<open>Errors\<close>

text \<open>
  Every \<open>raise\<close> of the source is a value. \<open>SyntaxError\<close> carries the message the
  source builds; \<open>IndexError\<close> and \<open>ValueError\<close> are what Python raises by itself on a
  list read out of range and on \<open>list.index\<close> of an absent element.
\<close>

datatype error = SyntaxError string | IndexError | ValueError

fun is_syntax_error :: "error + 'a \<Rightarrow> bool" where
  "is_syntax_error (Inl (SyntaxError msg)) = True"
| "is_syntax_error r = False"

section \<open>Symbols of the template language (\<open>chatette/parsing/parser_utils.py\<close>)\<close>

definition ESCAPE_SYM :: char where
  "ESCAPE_SYM = CHR 0x5C"

definition ARG_SYM :: char where
  "ARG_SYM = CHR ''$''"

text \<open>Tokens are strings; a special symbol is a token of one character.\<close>

type_synonym token = string

definition ALIAS_SYM :: token where "ALIAS_SYM = ''~''"
definition SLOT_SYM :: token where "SLOT_SYM = ''@''"
definition INTENT_SYM :: token where "INTENT_SYM = ''%''"
definition UNIT_OPEN_SYM :: token where "UNIT_OPEN_SYM = ''[''"
definition UNIT_CLOSE_SYM :: token where "UNIT_CLOSE_SYM = '']''"
definition ANNOTATION_OPEN_SYM :: token where "ANNOTATION_OPEN_SYM = ''(''"
definition ANNOTATION_CLOSE_SYM :: token where "ANNOTATION_CLOSE_SYM = '')''"
definition VARIATION_SYM :: token where "VARIATION_SYM = ''#''"
definition RAND_GEN_SYM :: token where "RAND_GEN_SYM = ''?''"
definition PERCENT_GEN_SYM :: token where "PERCENT_GEN_SYM = ''/''"
definition CASE_GEN_SYM :: token where "CASE_GEN_SYM = ''&''"
definition ARG_SYM_token :: token where "ARG_SYM_token = [ARG_SYM]"

definition RESERVED_VARIATION_NAMES :: "string list" where
  "RESERVED_VARIATION_NAMES =
     [''all-variations-aggregation'', ''rules'', ''nb-gen-asked'', ''arg'']"

lemmas symbol_defs =
  ALIAS_SYM_def SLOT_SYM_def INTENT_SYM_def UNIT_OPEN_SYM_def UNIT_CLOSE_SYM_def
  ANNOTATION_OPEN_SYM_def ANNOTATION_CLOSE_SYM_def VARIATION_SYM_def RAND_GEN_SYM_def
  PERCENT_GEN_SYM_def CASE_GEN_SYM_def ARG_SYM_token_def ARG_SYM_def ESCAPE_SYM_def

definition is_special_sym :: "token \<Rightarrow> bool" where
  "is_special_sym text =
     (if length text \<noteq> 1 then False
      else text = ALIAS_SYM \<or> text = SLOT_SYM \<or> text = INTENT_SYM \<or>
           text = UNIT_OPEN_SYM \<or> text = UNIT_CLOSE_SYM \<or>
           text = VARIATION_SYM \<or> text = RAND_GEN_SYM \<or>
           text = PERCENT_GEN_SYM \<or> text = CASE_GEN_SYM \<or>
           text = CASE_GEN_SYM \<or> text = ARG_SYM_token)"

section \<open>Escape stripping\<close>

text \<open>
  \<open>remove_escapement\<close> returns the text unchanged when it holds no escape character;
  otherwise it runs a loop over the characters with two variables, the result built so
  far and the flag \<open>escaped\<close>. The loop is the function below, the remaining
  characters being its last argument.
\<close>

fun remove_escapement_loop :: "string \<Rightarrow> bool \<Rightarrow> string \<Rightarrow> string" where
  "remove_escapement_loop result escaped [] = result"
| "remove_escapement_loop result escaped (c # cs) =
     (if escaped \<and> c = ARG_SYM then
        remove_escapement_loop (result @ [ESCAPE_SYM, ARG_SYM]) False cs
      else if escaped then
        remove_escapement_loop (result @ [c]) False cs
      else if c = ESCAPE_SYM then
        remove_escapement_loop result True cs
      else
        remove_escapement_loop (result @ [c]) escaped cs)"

definition remove_escapement :: "string \<Rightarrow> string" where
  "remove_escapement text =
     (if ESCAPE_SYM \<notin> set text then text
      else remove_escapement_loop [] False text)"

text \<open>
  The specification's reading of the same function: an escape character in front of
  the argument marker stays (both characters are emitted), an escape character in
  front of any other character is dropped and that character emitted, and an escape
  character that ends the text is dropped.
\<close>

fun resolve_escapes :: "string \<Rightarrow> string" where
  "resolve_escapes [] = []"
| "resolve_escapes [c] = (if c = ESCAPE_SYM then [] else [c])"
| "resolve_escapes (c # d # rest) =
     (if c = ESCAPE_SYM then
        (if d = ARG_SYM then ESCAPE_SYM # ARG_SYM # resolve_escapes rest
         else d # resolve_escapes rest)
      else c # resolve_escapes (d # rest))"

section \<open>Bracket and span extraction\<close>

text \<open>
  Both extractors run the same two \<open>while\<close> loops over an index, with their own pair
  of brackets. The first loop stops at the opening bracket or at the end of the tokens;
  the second counts the closing brackets still expected. Each read \<open>tokens[i]\<close> is
  guarded by \<open>i < length\<close>, so no read is out of range.
\<close>

function scan_to_open :: "token \<Rightarrow> token list \<Rightarrow> nat \<Rightarrow> nat" where
  "scan_to_open opening tokens starting_index =
     (if starting_index < length tokens \<and> tokens ! starting_index \<noteq> opening
      then scan_to_open opening tokens (starting_index + 1)
      else starting_index)"
  by pat_completeness auto
termination
  by (relation "measure (\<lambda>(opening, tokens, i). length tokens - i)") auto

declare scan_to_open.simps [simp del]

function scan_to_close :: "token \<Rightarrow> token \<Rightarrow> token list \<Rightarrow> nat \<Rightarrow> int \<Rightarrow> nat \<times> int" where
  "scan_to_close opening closing tokens end_index nb_closing_brackets_expected =
     (if end_index < length tokens \<and> nb_closing_brackets_expected > 0 then
        scan_to_close opening closing tokens (end_index + 1)
          (if tokens ! end_index = opening then nb_closing_brackets_expected + 1
           else if tokens ! end_index = closing then nb_closing_brackets_expected - 1
           else nb_closing_brackets_expected)
      else (end_index, nb_closing_brackets_expected))"
  by pat_completeness auto
termination
  by (relation "measure (\<lambda>(opening, closing, tokens, i, nb). length tokens - i)") auto

declare scan_to_close.simps [simp del]

text \<open>Python's \<open>xs[a:b]\<close> for indices \<open>0 \<le> a\<close> and \<open>0 \<le> b\<close>.\<close>

definition slice :: "'a list \<Rightarrow> nat \<Rightarrow> nat \<Rightarrow> 'a list" where
  "slice xs a b = take (b - a) (drop a xs)"

text \<open>
  In \<open>get_declaration_interior\<close> the end index is decremented before it is compared
  with the length. The second loop has run at least once when the decrement is reached,
  so the index is positive there and the subtraction on \<open>nat\<close> is Python's.
\<close>

definition get_declaration_interior :: "token list \<Rightarrow> token list option" where
  "get_declaration_interior tokens =
     (let starting_index = scan_to_open UNIT_OPEN_SYM tokens 0 + 1 in
      if starting_index \<ge> length tokens then None
      else
        let end_index =
              fst (scan_to_close UNIT_OPEN_SYM UNIT_CLOSE_SYM tokens starting_index 1) - 1
        in if end_index \<ge> length tokens then None
           else Some (slice tokens starting_index end_index))"

definition get_annotation_interior :: "token list \<Rightarrow> token list option" where
  "get_annotation_interior tokens =
     (let starting_index = scan_to_open ANNOTATION_OPEN_SYM tokens 0 + 1 in
      if starting_index \<ge> length tokens then None
      else
        let end_index =
              fst (scan_to_close ANNOTATION_OPEN_SYM ANNOTATION_CLOSE_SYM tokens starting_index 1)
        in if end_index \<ge> length tokens then None
           else Some (slice tokens starting_index end_index))"

section \<open>Declaration validator\<close>

text \<open>
  \<open>list.index\<close> returns the position of the first occurrence and raises
  \<open>ValueError\<close> when there is none.
\<close>

fun py_index :: "'a list \<Rightarrow> 'a \<Rightarrow> error + nat" where
  "py_index [] x = Inl ValueError"
| "py_index (y # ys) x =
     (if y = x then Inr 0
      else case py_index ys x of Inl e \<Rightarrow> Inl e | Inr i \<Rightarrow> Inr (Suc i))"

text \<open>
  \<open>check_declaration_validity\<close> is a sequence of five blocks of checks, each of which
  either raises or falls through to the next one. A block is a function to
  \<open>error + unit\<close>; \<open>then_check\<close> runs the second block when the first one has not
  raised.
\<close>

definition then_check :: "error + unit \<Rightarrow> error + unit \<Rightarrow> error + unit" where
  "then_check first second = (case first of Inl e \<Rightarrow> Inl e | Inr u \<Rightarrow> second)"

definition check_casegen :: "token list \<Rightarrow> error + unit" where
  "check_casegen tokens_unit_inside =
     (let casegen_count = count_list tokens_unit_inside CASE_GEN_SYM in
      if casegen_count > 1 then
        Inl (SyntaxError
          ''There can be only one case generation modifier in a unit declaration.'')
      else if casegen_count = 1 then
        (case py_index tokens_unit_inside CASE_GEN_SYM of
           Inl e \<Rightarrow> Inl e
         | Inr i \<Rightarrow>
             if i \<noteq> 0 then
               Inl (SyntaxError
                 ''Case generation modifiers have to be at the start of a unit declaration.'')
             else Inr ())
      else Inr ())"

text \<open>
  The block that wants a name. With no case generation marker the source reads
  \<open>tokens_unit_inside[0]\<close> without looking at the length: on the empty list Python
  raises \<open>IndexError\<close>. With one marker the length is checked first.
\<close>

definition check_named :: "token list \<Rightarrow> error + unit" where
  "check_named tokens_unit_inside =
     (let casegen_count = count_list tokens_unit_inside CASE_GEN_SYM in
      if casegen_count = 0 then
        (case tokens_unit_inside of
           [] \<Rightarrow> Inl IndexError
         | first # others \<Rightarrow>
             if is_special_sym first
             then Inl (SyntaxError ''Unit declarations must be named.'')
             else Inr ())
      else if casegen_count = 1 \<and> length tokens_unit_inside \<le> 1 then
        Inl (SyntaxError ''Unit declarations must be named.'')
      else if casegen_count = 1 \<and> is_special_sym (tokens_unit_inside ! 1) then
        Inl (SyntaxError ''Unit declarations must be named.'')
      else Inr ())"

definition check_variation :: "token list \<Rightarrow> error + unit" where
  "check_variation tokens_unit_inside =
     (let variation_count = count_list tokens_unit_inside VARIATION_SYM in
      if variation_count > 1 then
        Inl (SyntaxError ''There can be only one variation modifier in a unit declaration.'')
      else if variation_count = 1 then
        (case py_index tokens_unit_inside VARIATION_SYM of
           Inl e \<Rightarrow> Inl e
         | Inr i \<Rightarrow>
             let variation_name_index = i + 1 in
             if variation_name_index \<ge> length tokens_unit_inside
                \<or> is_special_sym (tokens_unit_inside ! variation_name_index)
             then Inl (SyntaxError ''Variations must be named.'')
             else
               let variation_name = tokens_unit_inside ! variation_name_index in
               if variation_name \<in> set RESERVED_VARIATION_NAMES
               then Inl (SyntaxError (''The following variation names are reserved: ''
                      @ ''['all-variations-aggregation', 'rules', 'nb-gen-asked', 'arg']''
                      @ ''. Please don't use them.''))
               else Inr ())
      else Inr ())"

definition check_argument :: "token list \<Rightarrow> error + unit" where
  "check_argument tokens_unit_inside =
     (let argument_count = count_list tokens_unit_inside ARG_SYM_token in
      if argument_count > 1 then
        Inl (SyntaxError ''There can be only one argument modifier per unit declaration.'')
      else if argument_count = 1 then
        (case py_index tokens_unit_inside ARG_SYM_token of
           Inl e \<Rightarrow> Inl e
         | Inr i \<Rightarrow>
             let argument_name_index = i + 1 in
             if argument_name_index \<ge> length tokens_unit_inside
                \<or> is_special_sym (tokens_unit_inside ! argument_name_index)
             then Inl (SyntaxError ''Arguments must be named.'')
             else Inr ())
      else Inr ())"

definition check_randgen :: "token list \<Rightarrow> error + unit" where
  "check_randgen tokens_unit_inside =
     (let randgen_count = count_list tokens_unit_inside RAND_GEN_SYM in
      if randgen_count > 0 then
        Inl (SyntaxError ''Unit declarations cannot take a random generation modifier.'')
      else
        let percentgen_count = count_list tokens_unit_inside PERCENT_GEN_SYM in
        if percentgen_count > 0 then
          Inl (SyntaxError
            ''Unit declarations cannot take a percentage for the random generation modifier.'')
        else Inr ())"

definition check_declaration_validity :: "token list \<Rightarrow> error + unit" where
  "check_declaration_validity tokens_unit_inside =
     then_check (check_casegen tokens_unit_inside)
       (then_check (check_named tokens_unit_inside)
          (then_check (check_variation tokens_unit_inside)
             (then_check (check_argument tokens_unit_inside)
                (check_randgen tokens_unit_inside))))"

text \<open>
  The specification's list of violations, clause by clause. A marker has no following
  name when nothing follows it or a special symbol does. A unit has no name when the
  span, after a leading case generation marker if there is one, is empty or starts with
  a special symbol.
\<close>

fun marker_without_name :: "token \<Rightarrow> token list \<Rightarrow> bool" where
  "marker_without_name marker [] = False"
| "marker_without_name marker [t] = (t = marker)"
| "marker_without_name marker (t # t' # ts) =
     ((t = marker \<and> is_special_sym t') \<or> marker_without_name marker (t' # ts))"

fun marker_with_reserved_name :: "token \<Rightarrow> token list \<Rightarrow> bool" where
  "marker_with_reserved_name marker [] = False"
| "marker_with_reserved_name marker [t] = False"
| "marker_with_reserved_name marker (t # t' # ts) =
     ((t = marker \<and> t' \<in> set RESERVED_VARIATION_NAMES)
      \<or> marker_with_reserved_name marker (t' # ts))"

definition unit_without_name :: "token list \<Rightarrow> bool" where
  "unit_without_name tokens =
     (case (case tokens of [] \<Rightarrow> []
            | t # ts \<Rightarrow> if t = CASE_GEN_SYM then ts else t # ts) of
        [] \<Rightarrow> True
      | t # ts \<Rightarrow> is_special_sym t)"

definition declaration_violation :: "token list \<Rightarrow> bool" where
  "declaration_violation tokens =
     (count_list tokens CASE_GEN_SYM > 1
      \<or> CASE_GEN_SYM \<in> set (tl tokens)
      \<or> unit_without_name tokens
      \<or> count_list tokens VARIATION_SYM > 1
      \<or> marker_without_name VARIATION_SYM tokens
      \<or> marker_with_reserved_name VARIATION_SYM tokens
      \<or> count_list tokens ARG_SYM_token > 1
      \<or> marker_without_name ARG_SYM_token tokens
      \<or> RAND_GEN_SYM \<in> set tokens
      \<or> PERCENT_GEN_SYM \<in> set tokens)"

section \<open>Strings of Python (\<open>str\<close> methods used by \<open>chatette/units\<close>)\<close>

text \<open>
  The character tests and case mappings of Python's \<open>str\<close> are library code. They are
  written out here on ASCII text: the white space of \<open>str.isspace\<close>, the letters of
  \<open>str.isalpha\<close>, and \<open>str.upper\<close> and \<open>str.lower\<close>, which return a string (in
  Python the mapping of one character can be several characters). A character outside
  ASCII has no case and is no white space in this model.
\<close>

definition ascii_lowercase :: string where
  "ascii_lowercase = ''abcdefghijklmnopqrstuvwxyz''"

definition ascii_uppercase :: string where
  "ascii_uppercase = ''ABCDEFGHIJKLMNOPQRSTUVWXYZ''"

definition isspace :: "char \<Rightarrow> bool" where
  "isspace c = (c \<in> set [CHR 0x09, CHR 0x0A, CHR 0x0B, CHR 0x0C, CHR 0x0D,
                          CHR 0x1C, CHR 0x1D, CHR 0x1E, CHR 0x1F, CHR '' ''])"

definition isalpha :: "char \<Rightarrow> bool" where
  "isalpha c = (c \<in> set (ascii_lowercase @ ascii_uppercase))"

definition upper :: "char \<Rightarrow> string" where
  "upper c = (case map_of (zip ascii_lowercase ascii_uppercase) c of
                Some C \<Rightarrow> [C] | None \<Rightarrow> [c])"

definition lower :: "char \<Rightarrow> string" where
  "lower c = (case map_of (zip ascii_uppercase ascii_lowercase) c of
                Some C \<Rightarrow> [C] | None \<Rightarrow> [c])"

lemmas str_defs = ascii_lowercase_def ascii_uppercase_def isspace_def isalpha_def
  upper_def lower_def

section \<open>Leading case (\<open>chatette/units/__init__.py\<close>)\<close>

fun may_change_leading_case :: "string \<Rightarrow> bool" where
  "may_change_leading_case [] = False"
| "may_change_leading_case (c # cs) =
     (if isalpha c then True
      else if isspace c then may_change_leading_case cs
      else False)"

text \<open>
  \<open>with_leading_upper\<close> and \<open>with_leading_lower\<close> loop over \<open>enumerate(text)\<close> and
  return from inside the loop at the first character that is no white space. The reads
  \<open>text[i]\<close> and the slices are at an index of the enumeration, hence in range.
\<close>

fun with_leading_upper_loop :: "string \<Rightarrow> (nat \<times> char) list \<Rightarrow> string" where
  "with_leading_upper_loop text [] = text"
| "with_leading_upper_loop text ((i, c) # rest) =
     (if \<not> isspace c then take i text @ upper (text ! i) @ drop (i + 1) text
      else with_leading_upper_loop text rest)"

definition with_leading_upper :: "string \<Rightarrow> string" where
  "with_leading_upper text = with_leading_upper_loop text (enumerate 0 text)"

fun with_leading_lower_loop :: "string \<Rightarrow> (nat \<times> char) list \<Rightarrow> string" where
  "with_leading_lower_loop text [] = text"
| "with_leading_lower_loop text ((i, c) # rest) =
     (if \<not> isspace c then take i text @ lower (text ! i) @ drop (i + 1) text
      else with_leading_lower_loop text rest)"

definition with_leading_lower :: "string \<Rightarrow> string" where
  "with_leading_lower text = with_leading_lower_loop text (enumerate 0 text)"

text \<open>
  The specification's reading: the white space in front stays, the first character
  after it is replaced by its mapping, the rest stays; a text of white space only is
  returned as it is.
\<close>

definition map_first_non_space :: "(char \<Rightarrow> string) \<Rightarrow> string \<Rightarrow> string" where
  "map_first_non_space mapping text =
     (case dropWhile isspace text of
        [] \<Rightarrow> text
      | c # rest \<Rightarrow> takeWhile isspace text @ mapping c @ rest)"

section \<open>Randomness\<close>

text \<open>
  The source draws from Python's global random generator. The draws are a parameter of
  the model: an infinite sequence of natural numbers, consumed from the front.
  \<open>randint a b\<close> returns a number between \<open>a\<close> and \<open>b\<close>, both included.
\<close>

type_synonym rng = "nat \<Rightarrow> nat"

definition randint :: "int \<Rightarrow> int \<Rightarrow> rng \<Rightarrow> int \<times> rng" where
  "randint a b r = (a + int (r 0) mod (b - a + 1), \<lambda>i. r (Suc i))"

definition randomly_change_case :: "string \<Rightarrow> rng \<Rightarrow> string \<times> rng" where
  "randomly_change_case text r =
     (let (n, r') = randint 0 99 r in
      if n \<ge> 50 then (with_leading_lower text, r')
      else (with_leading_upper text, r'))"

text \<open>
  Modelled from the spec: \<open>chatette.utils.choose\<close> is not among the sources. The
  specification has it select one element uniformly at random, and return nothing
  (\<open>None\<close>) on an empty list.
\<close>

definition utils_choose :: "'a list \<Rightarrow> rng \<Rightarrow> 'a option \<times> rng" where
  "utils_choose xs r =
     (if xs = [] then (None, r)
      else let (n, r') = randint 0 (int (length xs) - 1) r in (Some (xs ! nat n), r'))"

section \<open>Examples and rule contents\<close>

text \<open>
  An entity is produced by the slot contents, which are not among the sources; the
  engine only concatenates lists of them. Two examples are equal when their texts and
  their entities are (\<open>Example.__eq__\<close> compares the two attributes).
\<close>

datatype entity = Entity string string

record example =
  ex_text :: string
  ex_entities :: "entity list"

definition Example :: "string \<Rightarrow> entity list \<Rightarrow> example" where
  "Example text entities = \<lparr>ex_text = text, ex_entities = entities\<rparr>"

text \<open>
  \<open>RuleContent\<close> is the superclass of the nodes of a rule. Its subclasses (words, word
  groups, references, choices) are not among the sources, so what a node answers to the
  three calls the unit definition makes is a field of the node: the list returned by
  its \<open>generate_all()\<close>, the number or \<open>None\<close> returned by its
  \<open>get_max_nb_generated_examples()\<close>, the answer of its \<open>can_have_casegen()\<close>, and
  the example it produces from the random draws when it does generate. A call returns
  fresh objects: no example is shared between two calls or two positions of a list.
\<close>

record rule_content =
  rc_name :: string
  rc_leading_space :: bool
  rc_variation_name :: "string option"
  rc_arg_value :: "string option"
  rc_casegen :: bool
  rc_randgen :: "string option"
  rc_percentgen :: int
  rc_can_have_casegen :: bool
  rc_generate_all :: "example list"
  rc_max_nb_generated_examples :: "int option"
  rc_generate :: "rng \<Rightarrow> example \<times> rng"

type_synonym rule = "rule_content list"

text \<open>
  The superclass itself: the constructor rejects an empty name, \<open>percentage_gen\<close>
  defaults to 50, and the three methods return an empty example, the list of one empty
  example, and \<open>None\<close>.
\<close>

definition RuleContent_init ::
  "string \<Rightarrow> bool \<Rightarrow> string option \<Rightarrow> string option \<Rightarrow> bool \<Rightarrow> string option
   \<Rightarrow> int option \<Rightarrow> error + rule_content" where
  "RuleContent_init name leading_space variation_name arg_value casegen randgen percentage_gen =
     (if name = [] then
        Inl (SyntaxError ''Tried to create content without a contents (or a name)'')
      else Inr \<lparr>rc_name = name, rc_leading_space = leading_space,
                rc_variation_name = variation_name, rc_arg_value = arg_value,
                rc_casegen = casegen, rc_randgen = randgen,
                rc_percentgen = (case percentage_gen of Some p \<Rightarrow> p | None \<Rightarrow> 50),
                rc_can_have_casegen = False,
                rc_generate_all = [Example [] []],
                rc_max_nb_generated_examples = None,
                rc_generate = (\<lambda>r. (Example [] [], r))\<rparr>)"

type_synonym randgens = "string \<rightharpoonup> bool"

text \<open>
  Modelled from the spec: the \<open>generate_random\<close> of the subclasses of \<open>RuleContent\<close> is
  not among the sources (the superclass returns an empty example and documents the
  contract). After the specification, a node that bears a randgen name is first checked
  against the map: a name already decided is honoured; otherwise the node rolls against
  its \<open>percentgen\<close>, a chance between 0 and 100 of generating, and records the
  decision under the name. A node without a randgen name always generates.
  \<open>decide_randgen\<close> is the decision, \<open>RuleContent_generate_random\<close> the whole call.
\<close>

definition decide_randgen :: "rule_content \<Rightarrow> randgens \<Rightarrow> rng \<Rightarrow> bool \<times> randgens \<times> rng" where
  "decide_randgen node generated_randgens r =
     (case rc_randgen node of
        None \<Rightarrow> (True, generated_randgens, r)
      | Some name \<Rightarrow>
          (case generated_randgens name of
             Some decision \<Rightarrow> (decision, generated_randgens, r)
           | None \<Rightarrow>
               let (n, r') = randint 0 99 r;
                   decision = (n < rc_percentgen node)
               in (decision, generated_randgens(name \<mapsto> decision), r')))"

definition RuleContent_generate_random ::
  "rule_content \<Rightarrow> randgens \<Rightarrow> rng \<Rightarrow> example \<times> randgens \<times> rng" where
  "RuleContent_generate_random node generated_randgens r =
     (let (decision, generated_randgens', r') = decide_randgen node generated_randgens r in
      if decision then
        (let (generated, r'') = rc_generate node r' in (generated, generated_randgens', r''))
      else (Example [] [], generated_randgens', r'))"

section \<open>Argument substitution\<close>

text \<open>
  A unit with an argument identifier compiles a pattern: an argument marker that no
  escape character precedes (a negative lookbehind), followed by the identifier. It
  replaces the matches of the pattern by the argument value with \<open>re.sub\<close>. Python's
  \<open>re\<close> is library code; it is written out here for an identifier that the pattern
  matches literally and a value that the replacement template leaves as it is (see
  \<open>regex_literal\<close> and the hypotheses of the theorem on substitution). The text is
  scanned from the left; a match starts at an argument marker that no escape character
  precedes and that the identifier follows, and the scan goes on behind the match.
  The flag says whether the character in front of the position is the escape character.
\<close>

function arg_regex_sub :: "string \<Rightarrow> string \<Rightarrow> bool \<Rightarrow> string \<Rightarrow> string" where
  "arg_regex_sub identifier arg_value after_escape [] = []"
| "arg_regex_sub identifier arg_value after_escape (c # cs) =
     (if c = ARG_SYM \<and> \<not> after_escape \<and> take (length identifier) cs = identifier then
        arg_value @ arg_regex_sub identifier arg_value (last (c # identifier) = ESCAPE_SYM)
                      (drop (length identifier) cs)
      else c # arg_regex_sub identifier arg_value (c = ESCAPE_SYM) cs)"
  by pat_completeness auto
termination
  by (relation "measure (\<lambda>(identifier, arg_value, after_escape, text). length text)") auto



text \<open>
  \<open>str.replace\<close> of the escaped argument marker by the marker alone: every
  occurrence, from the left.
\<close>

fun replace_escaped_arg :: "string \<Rightarrow> string" where
  "replace_escaped_arg (c # d # cs) =
     (if c = ESCAPE_SYM \<and> d = ARG_SYM then ARG_SYM # replace_escaped_arg cs
      else c # replace_escaped_arg (d # cs))"
| "replace_escaped_arg cs = cs"

definition substitute_argument :: "string \<Rightarrow> string \<Rightarrow> string \<Rightarrow> string" where
  "substitute_argument identifier arg_value text =
     replace_escaped_arg (arg_regex_sub identifier arg_value False text)"





section \<open>Unit definitions\<close>

text \<open>
  \<open>variations\<close> is a dictionary from variation names to lists of rules. The compiled
  pattern \<open>arg_regex\<close> is a function of \<open>argument_identifier\<close> and is not stored.
\<close>

record unit_definition =
  ud_type :: string
  ud_name :: string
  ud_rules :: "rule list"
  ud_argument_identifier :: "string option"
  ud_variations :: "string \<rightharpoonup> rule list"
  ud_casegen :: bool

text \<open>A string between two single quotes, as the error messages have names.\<close>

definition quoted :: "string \<Rightarrow> string" where
  "quoted s = [CHR 0x27] @ s @ [CHR 0x27]"

definition UnitDefinition_init ::
  "string \<Rightarrow> rule list option \<Rightarrow> string option \<Rightarrow> bool \<Rightarrow> unit_definition" where
  "UnitDefinition_init name rules arg casegen =
     \<lparr>ud_type = ''unit'', ud_name = name,
      ud_rules = (case rules of None \<Rightarrow> [] | Some rs \<Rightarrow> rs),
      ud_argument_identifier = arg, ud_variations = Map.empty, ud_casegen = casegen\<rparr>"

definition can_have_casegen :: "unit_definition \<Rightarrow> bool" where
  "can_have_casegen u =
     list_ex (\<lambda>rule. length rule > 0 \<and> rc_can_have_casegen (hd rule)) (ud_rules u)"



subsection \<open>Random generation\<close>

text \<open>
  The loop of \<open>generate_random\<close> over the nodes of the chosen rule. Its variables are
  the text, the entities and the dictionary \<open>generated_examples\<close> of the randgen
  decisions, which every node receives and may update.
\<close>

fun generate_random_loop ::
  "rule \<Rightarrow> string \<Rightarrow> entity list \<Rightarrow> randgens \<Rightarrow> rng
   \<Rightarrow> string \<times> entity list \<times> randgens \<times> rng" where
  "generate_random_loop [] example_text example_entities generated_examples r =
     (example_text, example_entities, generated_examples, r)"
| "generate_random_loop (token # tokens) example_text example_entities generated_examples r =
     (let (generated_token, generated_examples', r') =
            RuleContent_generate_random token generated_examples r
      in generate_random_loop tokens
           (example_text @ ex_text generated_token)
           (example_entities @ ex_entities generated_token)
           generated_examples' r')"

text \<open>
  The condition of the case change reads \<open>self.casegen and self.can_have_casegen\<close>: the
  method is named, not called, and a bound method is true. So the condition is
  \<open>self.casegen\<close>.
\<close>

definition generate_random ::
  "unit_definition \<Rightarrow> string option \<Rightarrow> string option \<Rightarrow> rng \<Rightarrow> error + example \<times> rng" where
  "generate_random u variation_name arg_value r =
     (case (case variation_name of
              None \<Rightarrow> Inr (utils_choose (ud_rules u) r)
            | Some name \<Rightarrow>
                (case ud_variations u name of
                   None \<Rightarrow>
                     Inl (SyntaxError (''Couldn't find a variation named '' @ quoted name
                            @ '' for '' @ ud_type u @ '' '' @ quoted (ud_name u)))
                 | Some rules \<Rightarrow> Inr (utils_choose rules r))) of
        Inl e \<Rightarrow> Inl e
      | Inr (None, r1) \<Rightarrow> Inr (Example [] [], r1)
      | Inr (Some chosen_rule, r1) \<Rightarrow>
          (let (example_text, example_entities, generated_examples, r2) =
                 generate_random_loop chosen_rule [] [] Map.empty r1;
               (example_text, r3) =
                 (if ud_casegen u then randomly_change_case example_text r2
                  else (example_text, r2));
               example_text =
                 (case (arg_value, ud_argument_identifier u) of
                    (Some v, Some identifier) \<Rightarrow> substitute_argument identifier v example_text
                  | _ \<Rightarrow> example_text)
           in Inr (Example example_text example_entities, r3)))"

subsection \<open>Exhaustive generation\<close>

text \<open>
  The inner loop of \<open>generate_all\<close> over the nodes of one rule. While the examples of
  the current rule are empty the possibilities of the node replace them; otherwise every
  example is extended by every possibility, the examples in the outer loop.
\<close>

fun examples_of_rule :: "example list \<Rightarrow> rule \<Rightarrow> example list" where
  "examples_of_rule examples_from_current_rule [] = examples_from_current_rule"
| "examples_of_rule examples_from_current_rule (sub_unit_rule # others) =
     (let sub_unit_possibilities = rc_generate_all sub_unit_rule in
      examples_of_rule
        (if length examples_from_current_rule \<le> 0 then sub_unit_possibilities
         else concat (map (\<lambda>ex. map (\<lambda>possibility.
                 Example (ex_text ex @ ex_text possibility)
                         (ex_entities ex @ ex_entities possibility))
               sub_unit_possibilities) examples_from_current_rule))
        others)"

text \<open>The outer loop, over the rules: it extends the generated examples.\<close>

fun examples_of_rules :: "example list \<Rightarrow> rule list \<Rightarrow> example list" where
  "examples_of_rules generated_examples [] = generated_examples"
| "examples_of_rules generated_examples (rule # rules) =
     examples_of_rules (generated_examples @ examples_of_rule [] rule) rules"

definition replace_arguments ::
  "unit_definition \<Rightarrow> string option \<Rightarrow> example list \<Rightarrow> example list" where
  "replace_arguments u arg_value generated_examples =
     (case (arg_value, ud_argument_identifier u) of
        (Some v, Some identifier) \<Rightarrow>
          map (\<lambda>ex. ex\<lparr>ex_text := substitute_argument identifier v (ex_text ex)\<rparr>)
            generated_examples
      | _ \<Rightarrow> generated_examples)"

definition casegen_variants :: "example \<Rightarrow> example list" where
  "casegen_variants ex =
     (let lower_ex = ex\<lparr>ex_text := with_leading_lower (ex_text ex)\<rparr>;
          upper_ex = ex\<lparr>ex_text := with_leading_upper (ex_text ex)\<rparr>
      in if lower_ex \<noteq> upper_ex then [lower_ex, upper_ex] else [ex])"

definition apply_casegen :: "unit_definition \<Rightarrow> example list \<Rightarrow> example list" where
  "apply_casegen u generated_examples =
     (if ud_casegen u \<and> can_have_casegen u
      then concat (map casegen_variants generated_examples)
      else generated_examples)"

definition generate_all ::
  "unit_definition \<Rightarrow> string option \<Rightarrow> string option \<Rightarrow> error + example list" where
  "generate_all u variation_name arg_value =
     (case (case variation_name of
              None \<Rightarrow> Inr (ud_rules u)
            | Some name \<Rightarrow>
                (case ud_variations u name of
                   Some rules \<Rightarrow> Inr rules
                 | None \<Rightarrow>
                     Inl (SyntaxError (''Couldn't find variation '' @ quoted name
                            @ '' for '' @ ud_type u @ '' '' @ quoted (ud_name u))))) of
        Inl e \<Rightarrow> Inl e
      | Inr relevant_rules \<Rightarrow>
          if relevant_rules = [] then
            (case variation_name of
               None \<Rightarrow>
                 Inl (SyntaxError (''No rules could be found for '' @ ud_type u
                        @ '' '' @ quoted (ud_name u)))
             | Some name \<Rightarrow>
                 Inl (SyntaxError (''No rules could be found for '' @ ud_type u
                        @ '' '' @ quoted (ud_name u) @ '' (variation: '' @ [CHR 0x27]
                        @ name @ [CHR 0x27])))
          else
            Inr (apply_casegen u
                   (replace_arguments u arg_value
                      (examples_of_rules [] relevant_rules))))"

subsection \<open>Counting\<close>

text \<open>
  The inner loop of \<open>get_max_nb_generated_examples\<close>: a node whose count is \<open>None\<close> is
  skipped; while the count of the rule is 0 the count of the node replaces it, otherwise
  it multiplies it.
\<close>

fun nb_of_rule :: "int \<Rightarrow> rule \<Rightarrow> int" where
  "nb_of_rule rule_nb_ex [] = rule_nb_ex"
| "nb_of_rule rule_nb_ex (sub_unit_rule # others) =
     (case rc_max_nb_generated_examples sub_unit_rule of
        None \<Rightarrow> nb_of_rule rule_nb_ex others
      | Some current_nb_ex \<Rightarrow>
          nb_of_rule (if rule_nb_ex = 0 then current_nb_ex else rule_nb_ex * current_nb_ex)
            others)"

fun nb_of_rules :: "int \<Rightarrow> rule list \<Rightarrow> int" where
  "nb_of_rules nb_possible_ex [] = nb_possible_ex"
| "nb_of_rules nb_possible_ex (rule # rules) =
     nb_of_rules (nb_possible_ex + nb_of_rule 0 rule) rules"

definition get_max_nb_generated_examples ::
  "unit_definition \<Rightarrow> string option \<Rightarrow> error + int" where
  "get_max_nb_generated_examples u variation_name =
     (case (case variation_name of
              None \<Rightarrow> Inr (ud_rules u)
            | Some name \<Rightarrow>
                (case ud_variations u name of
                   Some rules \<Rightarrow> Inr rules
                 | None \<Rightarrow>
                     Inl (SyntaxError (''Couldn't find variation '' @ quoted name
                            @ '' for '' @ ud_type u @ '' '' @ quoted (ud_name u))))) of
        Inl e \<Rightarrow> Inl e
      | Inr relevant_rules \<Rightarrow>
          (let nb_possible_ex = nb_of_rules 0 relevant_rules in
           Inr (if ud_casegen u then nb_possible_ex * 2 else nb_possible_ex)))"

text \<open>
  The specification's cartesian product of the outputs of the nodes of a rule, texts
  and entity lists concatenated pairwise in the order of the nodes. The product over no
  node is the one empty example.
\<close>

definition combine :: "example \<Rightarrow> example \<Rightarrow> example" where
  "combine ex rest =
     Example (ex_text ex @ ex_text rest) (ex_entities ex @ ex_entities rest)"

definition pairwise_examples :: "example list \<Rightarrow> example list \<Rightarrow> example list" where
  "pairwise_examples first second = concat (map (\<lambda>ex. map (combine ex) second) first)"

fun cartesian_examples :: "example list list \<Rightarrow> example list" where
  "cartesian_examples [] = [Example [] []]"
| "cartesian_examples (possibilities # others) =
     pairwise_examples possibilities (cartesian_examples others)"

definition rule_product :: "rule \<Rightarrow> example list" where
  "rule_product rule = cartesian_examples (map rc_generate_all rule)"

text \<open>
  The rules a variation name selects: the rules of the unit for no name, the rules
  registered under the name otherwise, nothing for an unknown name.
\<close>

definition selected_rules :: "unit_definition \<Rightarrow> string option \<Rightarrow> rule list option" where
  "selected_rules u variation_name =
     (case variation_name of None \<Rightarrow> Some (ud_rules u) | Some name \<Rightarrow> ud_variations u name)"


text \<open>A word: a node with one output, its text, and the count 1.\<close>

definition word :: "string \<Rightarrow> rule_content" where
  "word s =
     \<lparr>rc_name = s, rc_leading_space = False, rc_variation_name = None, rc_arg_value = None,
      rc_casegen = False, rc_randgen = None, rc_percentgen = 50, rc_can_have_casegen = True,
      rc_generate_all = [Example s []], rc_max_nb_generated_examples = Some 1,
      rc_generate = (\<lambda>r. (Example s [], r))\<rparr>"

text \<open>A node with no output at all, such as a choice between no alternatives.\<close>

definition no_output :: "string \<Rightarrow> rule_content" where
  "no_output s =
     \<lparr>rc_name = s, rc_leading_space = False, rc_variation_name = None, rc_arg_value = None,
      rc_casegen = False, rc_randgen = None, rc_percentgen = 50, rc_can_have_casegen = False,
      rc_generate_all = [], rc_max_nb_generated_examples = Some 0,
      rc_generate = (\<lambda>r. (Example [] [], r))\<rparr>"

subsection \<open>The run of a rule in random mode\<close>

text \<open>
  What happens to each node of a rule during the loop of \<open>generate_random\<close>, node by
  node: the randgen decisions and the random draws the node receives, the decision taken
  for it, and the example it returns. The loop threads the same two values in the same
  way; the list only keeps them.
\<close>

record node_run =
  run_randgens :: randgens
  run_rng :: rng
  run_decision :: bool
  run_example :: example

fun generation_trace :: "rule \<Rightarrow> randgens \<Rightarrow> rng \<Rightarrow> node_run list" where
  "generation_trace [] generated_examples r = []"
| "generation_trace (token # tokens) generated_examples r =
     \<lparr>run_randgens = generated_examples, run_rng = r,
      run_decision = fst (decide_randgen token generated_examples r),
      run_example = fst (RuleContent_generate_random token generated_examples r)\<rparr>
     # generation_trace tokens
         (fst (snd (RuleContent_generate_random token generated_examples r)))
         (snd (snd (RuleContent_generate_random token generated_examples r)))"


section \<open>Escape stripping: the loop is the specification's reading\<close>

lemma remove_escapement_loop_resolve:
  "remove_escapement_loop result False s = result @ resolve_escapes s"
proof (induction s arbitrary: result rule: resolve_escapes.induct)
  case 1
  then show ?case by simp
next
  case (2 c)
  then show ?case by simp
next
  case (3 c d rest)
  show ?case
  proof (cases "c = ESCAPE_SYM")
    case True
    then show ?thesis
      using "3.IH"(1) "3.IH"(2) by (simp add: ARG_SYM_def ESCAPE_SYM_def)
  next
    case False
    then show ?thesis
      using "3.IH"(3) [of "result @ [c]"] by simp
  qed
qed

lemma resolve_escapes_no_escape:
  "ESCAPE_SYM \<notin> set s \<Longrightarrow> resolve_escapes s = s"
  by (induction s rule: resolve_escapes.induct) auto

text \<open>
  Claim C8. For every string, \<open>remove_escapement\<close> returns the string in which an
  escape character followed by the argument marker is kept escaped, an escape character
  followed by any other character is resolved to that character alone, and a trailing
  escape character is dropped. The function is total: no operation of the source can
  raise on a string.
\<close>

theorem remove_escapement_resolves:
  "remove_escapement s = resolve_escapes s"
  by (simp add: remove_escapement_def remove_escapement_loop_resolve resolve_escapes_no_escape)

theorem remove_escapement_resolves_witness:
  "remove_escapement [CHR ''a'', ESCAPE_SYM, CHR ''?'', CHR ''b''] = ''a?b''
   \<and> remove_escapement [CHR ''a'', ESCAPE_SYM, ARG_SYM, CHR ''b'']
       = [CHR ''a'', ESCAPE_SYM, ARG_SYM, CHR ''b'']
   \<and> remove_escapement [CHR ''a'', ESCAPE_SYM] = ''a''"
  using remove_escapement_resolves [of "[CHR ''a'', ESCAPE_SYM, CHR ''?'', CHR ''b'']"]
    remove_escapement_resolves [of "[CHR ''a'', ESCAPE_SYM, ARG_SYM, CHR ''b'']"]
    remove_escapement_resolves [of "[CHR ''a'', ESCAPE_SYM]"]
  by (simp add: ESCAPE_SYM_def ARG_SYM_def)

section \<open>Leading case: only the first character after the white space changes\<close>

lemma with_leading_upper_loop_suffix:
  "with_leading_upper_loop (xs @ ys) (enumerate (length xs) ys) =
     xs @ map_first_non_space upper ys"
proof (induction ys arbitrary: xs)
  case Nil
  then show ?case by (simp add: map_first_non_space_def)
next
  case (Cons y ys)
  show ?case
  proof (cases "isspace y")
    case True
    then show ?thesis
      using Cons.IH [of "xs @ [y]"]
      by (cases "dropWhile isspace ys")
         (simp_all add: map_first_non_space_def del: dropWhile_eq_Nil_conv)
  next
    case False
    then show ?thesis by (simp add: nth_append map_first_non_space_def)
  qed
qed

lemma with_leading_lower_loop_suffix:
  "with_leading_lower_loop (xs @ ys) (enumerate (length xs) ys) =
     xs @ map_first_non_space lower ys"
proof (induction ys arbitrary: xs)
  case Nil
  then show ?case by (simp add: map_first_non_space_def)
next
  case (Cons y ys)
  show ?case
  proof (cases "isspace y")
    case True
    then show ?thesis
      using Cons.IH [of "xs @ [y]"]
      by (cases "dropWhile isspace ys")
         (simp_all add: map_first_non_space_def del: dropWhile_eq_Nil_conv)
  next
    case False
    then show ?thesis by (simp add: nth_append map_first_non_space_def)
  qed
qed

lemma with_leading_upper_eq: "with_leading_upper s = map_first_non_space upper s"
  using with_leading_upper_loop_suffix [of "[]" s] by (simp add: with_leading_upper_def)

lemma with_leading_lower_eq: "with_leading_lower s = map_first_non_space lower s"
  using with_leading_lower_loop_suffix [of "[]" s] by (simp add: with_leading_lower_def)

text \<open>
  Claim C10. For every string, \<open>with_leading_upper\<close> and \<open>with_leading_lower\<close> return
  the input with only its first character that is no white space replaced by the
  uppercase (respectively lowercase) mapping of that character: the white space before
  it and the characters after it are unchanged, and a string of white space only is
  returned unchanged.
\<close>

theorem with_leading_case_frame:
  "with_leading_upper s = map_first_non_space upper s
   \<and> with_leading_lower s = map_first_non_space lower s"
  by (simp add: with_leading_upper_eq with_leading_lower_eq)

theorem with_leading_case_frame_witness:
  "with_leading_upper ''  ab C'' = ''  Ab C''
   \<and> with_leading_lower ''  AB c'' = ''  aB c''
   \<and> with_leading_upper ''   '' = ''   ''
   \<and> with_leading_lower '' 3A'' = '' 3A''"
  using with_leading_case_frame [of "''  ab C''"] with_leading_case_frame [of "''  AB c''"]
    with_leading_case_frame [of "''   ''"] with_leading_case_frame [of "'' 3A''"]
  by (simp add: map_first_non_space_def str_defs)

section \<open>Bracket and span extraction: what the two functions return\<close>

text \<open>
  Claim C2. The claim has both extractors return the tokens strictly between the
  outermost brackets, and \<open>None\<close> when there is no opening bracket or the span is not
  terminated. The source does otherwise at the inputs below. In
  \<open>get_declaration_interior\<close> the end index is decremented before it is compared with
  the length, so the comparison never holds and an unterminated span returns the
  tokens after the bracket without the last one. In \<open>get_annotation_interior\<close> the
  decrement is missing: a closing bracket that ends the line makes the function return
  \<open>None\<close>, and one that does not is part of the result.
\<close>

theorem interior_extraction_at_failing_inputs:
  "get_declaration_interior [''['', ''a'', ''b''] = Some [''a'']
   \<and> get_annotation_interior [''('', ''a'', '')''] = None
   \<and> get_annotation_interior [''('', ''a'', '')'', ''b''] = Some [''a'', '')'']"
  by (simp add: get_declaration_interior_def get_annotation_interior_def slice_def
      scan_to_open.simps scan_to_close.simps symbol_defs)

section \<open>Declaration validator\<close>

text \<open>
  Claim C5. The claim has \<open>check_declaration_validity\<close> raise a syntax error exactly on
  the listed violations, a unit with no name among them, and return otherwise. On the
  empty interior (the declaration \<open>~[]\<close>) the source reads the first token without
  looking at the length: it raises \<open>IndexError\<close>, which is neither.
\<close>

theorem check_declaration_validity_empty:
  "check_declaration_validity [] = Inl IndexError
   \<and> \<not> is_syntax_error (check_declaration_validity [])
   \<and> declaration_violation []
   \<and> get_declaration_interior [ALIAS_SYM, UNIT_OPEN_SYM, UNIT_CLOSE_SYM] = Some []"
  by (simp add: check_declaration_validity_def then_check_def check_casegen_def
      check_named_def declaration_violation_def unit_without_name_def
      get_declaration_interior_def slice_def scan_to_open.simps scan_to_close.simps symbol_defs)

section \<open>Unknown variation names\<close>

text \<open>
  Claim C7. For every variation name that is not a key of the variations of the unit,
  each of \<open>generate_random\<close>, \<open>generate_all\<close> and \<open>get_max_nb_generated_examples\<close>
  raises a syntax error: none falls back to the unconditional rules or returns a
  default or an empty result.
\<close>

theorem unknown_variation_is_syntax_error:
  assumes "ud_variations u name = None"
  shows "is_syntax_error (generate_random u (Some name) arg_value r)
         \<and> is_syntax_error (generate_all u (Some name) arg_value)
         \<and> is_syntax_error (get_max_nb_generated_examples u (Some name))"
  using assms
  by (simp add: generate_random_def generate_all_def get_max_nb_generated_examples_def)

theorem unknown_variation_is_syntax_error_witness:
  "ud_variations (UnitDefinition_init ''greet'' (Some [[]]) None False) ''formal'' = None
   \<and> is_syntax_error
        (generate_random (UnitDefinition_init ''greet'' (Some [[]]) None False)
           (Some ''formal'') None (\<lambda>i. 0))
   \<and> is_syntax_error
        (generate_all (UnitDefinition_init ''greet'' (Some [[]]) None False)
           (Some ''formal'') None)
   \<and> is_syntax_error
        (get_max_nb_generated_examples (UnitDefinition_init ''greet'' (Some [[]]) None False)
           (Some ''formal''))"
proof -
  have h: "ud_variations (UnitDefinition_init ''greet'' (Some [[]]) None False) ''formal'' = None"
    by (simp add: UnitDefinition_init_def)
  show ?thesis
    using h unknown_variation_is_syntax_error [OF h, of None "\<lambda>i. 0"] by simp
qed

section \<open>Variation names in \<open>add_rule\<close> and \<open>add_rules\<close>\<close>




section \<open>Exhaustive generation: products of the outputs of the nodes\<close>

lemma example_rebuilt [simp]:
  "Example (ex_text ex) (ex_entities ex) = ex"
  by (simp add: Example_def)

lemma combine_empty [simp]: "combine ex (Example [] []) = ex"
  by (simp add: combine_def Example_def)

lemma combine_assoc: "combine (combine a b) c = combine a (combine b c)"
  by (simp add: combine_def Example_def)

lemma pairwise_examples_Nil [simp]: "pairwise_examples [] ys = []"
  by (simp add: pairwise_examples_def)

lemma pairwise_examples_Cons:
  "pairwise_examples (x # xs) ys = map (combine x) ys @ pairwise_examples xs ys"
  by (simp add: pairwise_examples_def)

lemma pairwise_examples_append:
  "pairwise_examples (xs @ ys) zs = pairwise_examples xs zs @ pairwise_examples ys zs"
  by (simp add: pairwise_examples_def)

lemma pairwise_examples_unit [simp]: "pairwise_examples xs [Example [] []] = xs"
  by (induction xs) (simp_all add: pairwise_examples_Cons)

lemma pairwise_examples_map:
  "pairwise_examples (map (combine a) ys) zs = map (combine a) (pairwise_examples ys zs)"
  by (induction ys) (simp_all add: pairwise_examples_Cons combine_assoc)

lemma pairwise_examples_assoc:
  "pairwise_examples (pairwise_examples xs ys) zs =
     pairwise_examples xs (pairwise_examples ys zs)"
  by (induction xs)
     (simp_all add: pairwise_examples_Cons pairwise_examples_append pairwise_examples_map)

lemma length_pairwise_examples:
  "length (pairwise_examples xs ys) = length xs * length ys"
  by (induction xs) (simp_all add: pairwise_examples_Cons)

lemma pairwise_examples_eq_Nil:
  "pairwise_examples xs ys = [] \<longleftrightarrow> xs = [] \<or> ys = []"
  using length_pairwise_examples [of xs ys] by (metis length_0_conv mult_is_0)

lemma examples_of_rule_step:
  "examples_of_rule acc (node # others) =
     examples_of_rule
       (if acc = [] then rc_generate_all node else pairwise_examples acc (rc_generate_all node))
       others"
  by (simp add: pairwise_examples_def combine_def [abs_def])

lemma examples_of_rule_from_examples:
  assumes "acc \<noteq> []" and "\<forall>node \<in> set rule. rc_generate_all node \<noteq> []"
  shows "examples_of_rule acc rule = pairwise_examples acc (rule_product rule)"
  using assms
proof (induction rule arbitrary: acc)
  case Nil
  then show ?case by (simp add: rule_product_def)
next
  case (Cons node others)
  have "pairwise_examples acc (rc_generate_all node) \<noteq> []"
    using Cons.prems by (simp add: pairwise_examples_eq_Nil)
  then have "examples_of_rule (pairwise_examples acc (rc_generate_all node)) others =
      pairwise_examples (pairwise_examples acc (rc_generate_all node)) (rule_product others)"
    using Cons.IH Cons.prems(2) by simp
  then show ?case
    using Cons.prems(1)
    by (simp only: examples_of_rule_step if_False pairwise_examples_assoc rule_product_def
        list.map cartesian_examples.simps)
qed

lemma examples_of_rule_product:
  assumes "rule \<noteq> []" and "\<forall>node \<in> set rule. rc_generate_all node \<noteq> []"
  shows "examples_of_rule [] rule = rule_product rule"
proof (cases rule)
  case Nil
  then show ?thesis using assms(1) by simp
next
  case (Cons node others)
  then have "examples_of_rule [] rule = examples_of_rule (rc_generate_all node) others"
    by simp
  also have "\<dots> = pairwise_examples (rc_generate_all node) (rule_product others)"
    using assms(2) Cons by (intro examples_of_rule_from_examples) simp_all
  finally show ?thesis
    using Cons by (simp add: rule_product_def)
qed

lemma examples_of_rules_concat:
  "examples_of_rules acc rules = acc @ concat (map (examples_of_rule []) rules)"
  by (induction rules arbitrary: acc) simp_all

lemma examples_of_rules_products:
  assumes "\<forall>rule \<in> set rules. rule \<noteq> [] \<and> (\<forall>node \<in> set rule. rc_generate_all node \<noteq> [])"
  shows "examples_of_rules [] rules = concat (map rule_product rules)"
proof -
  have "concat (map (examples_of_rule []) rules) = concat (map rule_product rules)"
    using assms by (induction rules) (simp_all add: examples_of_rule_product)
  then show ?thesis by (simp add: examples_of_rules_concat)
qed

lemma generate_all_selected:
  assumes "selected_rules u variation_name = Some rules" and "rules \<noteq> []"
  shows "generate_all u variation_name arg_value =
           Inr (apply_casegen u (replace_arguments u arg_value (examples_of_rules [] rules)))"
  using assms by (cases variation_name) (simp_all add: generate_all_def selected_rules_def)

text \<open>
  Claim C3, as stated: for every unit with a non-empty selected rule set,
  \<open>generate_all\<close> returns the concatenation, in rule order, of the cartesian products of
  the outputs of the nodes of each rule. It does not when a node has no output: the
  product is empty then, but the loop takes empty examples for "no node seen yet" and
  starts again from the next node.
\<close>

theorem generate_all_restarts_after_empty_output:
  "selected_rules (UnitDefinition_init ''u'' (Some [[no_output ''n'', word ''a'']]) None False)
      None = Some [[no_output ''n'', word ''a'']]
   \<and> generate_all (UnitDefinition_init ''u'' (Some [[no_output ''n'', word ''a'']]) None False)
        None None = Inr [Example ''a'' []]
   \<and> concat (map rule_product [[no_output ''n'', word ''a'']]) = []"
  by (simp add: generate_all_def selected_rules_def UnitDefinition_init_def apply_casegen_def
      replace_arguments_def rule_product_def no_output_def word_def)

text \<open>
  Claim C3, amended. For every unit with a non-empty selected rule set in which every
  rule has at least one node and every node at least one exhaustive output,
  \<open>generate_all\<close> builds, for each rule in order, the cartesian product of the outputs
  of the nodes of the rule, texts and entity lists concatenated pairwise in node order,
  and concatenates these per rule in rule order without removing duplicates; the
  argument substitution and the case generation are then applied to that list, and with
  no argument value and no case generation the list is returned as it is.
\<close>

theorem generate_all_concatenates_products:
  assumes "selected_rules u variation_name = Some rules"
    and "rules \<noteq> []"
    and "\<forall>rule \<in> set rules. rule \<noteq> [] \<and> (\<forall>node \<in> set rule. rc_generate_all node \<noteq> [])"
  shows "generate_all u variation_name arg_value =
           Inr (apply_casegen u (replace_arguments u arg_value
                  (concat (map rule_product rules))))
         \<and> (\<not> ud_casegen u \<and> arg_value = None \<longrightarrow>
              generate_all u variation_name arg_value = Inr (concat (map rule_product rules)))"
  using generate_all_selected [OF assms(1) assms(2)] examples_of_rules_products [OF assms(3)]
  by (simp add: apply_casegen_def replace_arguments_def)

theorem generate_all_concatenates_products_witness:
  "selected_rules (UnitDefinition_init ''u''
       (Some [[word ''x'', word ''1''], [word ''y''], [word ''x'', word ''1'']]) None False)
     None = Some [[word ''x'', word ''1''], [word ''y''], [word ''x'', word ''1'']]
   \<and> generate_all (UnitDefinition_init ''u''
       (Some [[word ''x'', word ''1''], [word ''y''], [word ''x'', word ''1'']]) None False)
     None None = Inr [Example ''x1'' [], Example ''y'' [], Example ''x1'' []]"
proof -
  let ?rules = "[[word ''x'', word ''1''], [word ''y''], [word ''x'', word ''1'']]"
  let ?u = "UnitDefinition_init ''u'' (Some ?rules) None False"
  have s: "selected_rules ?u None = Some ?rules"
    by (simp add: selected_rules_def UnitDefinition_init_def)
  have n: "?rules \<noteq> []" by simp
  have o: "\<forall>rule \<in> set ?rules. rule \<noteq> [] \<and> (\<forall>node \<in> set rule. rc_generate_all node \<noteq> [])"
    by (simp add: word_def)
  have c: "\<not> ud_casegen ?u" by (simp add: UnitDefinition_init_def)
  have p: "concat (map rule_product ?rules) = [Example ''x1'' [], Example ''y'' [], Example ''x1'' []]"
    by (simp add: rule_product_def word_def pairwise_examples_def combine_def Example_def)
  show ?thesis
    using s c p generate_all_concatenates_products [OF s n o, of None]
    by (simp add: apply_casegen_def replace_arguments_def)
qed

section \<open>Counting: \<open>get_max_nb_generated_examples\<close> against \<open>generate_all\<close>\<close>




lemma length_replace_arguments [simp]:
  "length (replace_arguments u arg_value exs) = length exs"
  by (simp add: replace_arguments_def split: option.splits)










section \<open>Random generation: nodes that share a randgen name\<close>








lemma generate_random_generated:
  "fst (decide_randgen node g r) \<Longrightarrow>
     fst (RuleContent_generate_random node g r) =
       fst (rc_generate node (snd (snd (decide_randgen node g r))))"
  by (simp add: RuleContent_generate_random_def Let_def split_beta)

lemma length_generation_trace [simp]:
  "length (generation_trace rule g r) = length rule"
  by (induction rule arbitrary: g r) simp_all











section \<open>Argument substitution\<close>










lemma substitute_argument_empty [simp]: "substitute_argument x v [] = []"
  by (simp add: substitute_argument_def)





end
